theory Spec2Isabelle
  imports Complex_Main
begin

section \<open>Python values shared by the client and the application\<close>

text \<open>
  Exceptions are values. Only the classes that the two modules can meet are listed;
  each carries the text that \<^verbatim>\<open>str(e)\<close> is built from.
  \<^verbatim>\<open>RequestException\<close> stands for \<^verbatim>\<open>requests.RequestException\<close> and all its
  subclasses (connection errors, timeouts, \<^verbatim>\<open>HTTPError\<close> of \<^verbatim>\<open>raise_for_status\<close>,
  chunked-encoding errors of a stream that breaks).
\<close>

datatype exn =
    RequestException string
  | KeyError string
  | TypeError string
  | AttributeError string
  | ValueError string
  | IndexError string
  | ZeroDivisionError string
  | OverflowError string

fun is_request_exception :: "exn \<Rightarrow> bool" where
  "is_request_exception (RequestException _) = True"
| "is_request_exception _ = False"

text \<open>\<^verbatim>\<open>str(e)\<close>: the message, except that \<^verbatim>\<open>KeyError\<close> shows the repr of its key.\<close>

fun str_exn :: "exn \<Rightarrow> string" where
  "str_exn (RequestException m) = m"
| "str_exn (KeyError k) = [CHR 0x27] @ k @ [CHR 0x27]"
| "str_exn (TypeError m) = m"
| "str_exn (AttributeError m) = m"
| "str_exn (ValueError m) = m"
| "str_exn (IndexError m) = m"
| "str_exn (ZeroDivisionError m) = m"
| "str_exn (OverflowError m) = m"

text \<open>
  A Python \<^verbatim>\<open>dict\<close> keeps insertion order: assigning to a key that is present keeps
  its position, a new key goes to the end, \<^verbatim>\<open>del\<close> keeps the order of the others
  and raises \<^verbatim>\<open>KeyError\<close> for a key that is absent.
\<close>

type_synonym ('k, 'v) dict = "('k \<times> 'v) list"

fun dict_set :: "'k \<Rightarrow> 'v \<Rightarrow> ('k, 'v) dict \<Rightarrow> ('k, 'v) dict" where
  "dict_set k v [] = [(k, v)]"
| "dict_set k v (p # ps) = (if fst p = k then (k, v) # ps else p # dict_set k v ps)"

fun dict_get :: "('k, 'v) dict \<Rightarrow> 'k \<Rightarrow> 'v option" where
  "dict_get [] k = None"
| "dict_get (p # ps) k = (if fst p = k then Some (snd p) else dict_get ps k)"

definition dict_keys :: "('k, 'v) dict \<Rightarrow> 'k list" where
  "dict_keys d = map fst d"

definition dict_del :: "string \<Rightarrow> (string, 'v) dict \<Rightarrow> exn + (string, 'v) dict" where
  "dict_del k d =
     (if k \<in> set (dict_keys d) then Inr (filter (\<lambda>p. fst p \<noteq> k) d) else Inl (KeyError k))"

section \<open>The conversation store of app.py\<close>

text \<open>
  \<^verbatim>\<open>datetime.now()\<close> is an input of the model: every call site receives its clock
  reading as an argument. The message id (a prefix of an MD5 digest over role, content and
  the clock) is an input too.
\<close>

type_synonym datetime = nat
type_synonym addr = nat

record message =
  role :: string
  content :: string
  timestamp :: datetime
  msg_id :: string

text \<open>
  The \<^verbatim>\<open>'messages'\<close> entry of a conversation is a reference to a list object. The
  script keeps a second reference to the same object in its local variable
  \<^verbatim>\<open>messages\<close>, and \<^verbatim>\<open>add_message\<close> appends to the object in place, so the
  list objects live in an explicit heap and a conversation holds an address.
\<close>

record conversation =
  messages :: addr
  created_at :: datetime
  last_modified :: datetime
  title :: string

text \<open>
  \<^verbatim>\<open>st.session_state\<close> as the script finds it when a run starts: either key may be
  missing.
\<close>

record session_state =
  ss_conversations :: "(string, conversation) dict option"
  ss_active_conversation :: "string option"
  ss_heap :: "addr \<Rightarrow> message list"
  ss_next_addr :: addr

text \<open>The same state once \<^verbatim>\<open>init_conversation_state\<close> has run: both keys are present.\<close>

record store =
  conversations :: "(string, conversation) dict"
  active_conversation :: string
  heap :: "addr \<Rightarrow> message list"
  next_addr :: addr

definition fresh_session :: session_state where
  "fresh_session =
     \<lparr>ss_conversations = None, ss_active_conversation = None,
      ss_heap = (\<lambda>_. []), ss_next_addr = 0\<rparr>"

definition persist :: "store \<Rightarrow> session_state" where
  "persist s =
     \<lparr>ss_conversations = Some (conversations s),
      ss_active_conversation = Some (active_conversation s),
      ss_heap = heap s, ss_next_addr = next_addr s\<rparr>"

text \<open>A new empty list object: the next free address, holding \<open>[]\<close>.\<close>

definition new_conversation :: "datetime \<Rightarrow> datetime \<Rightarrow> addr \<Rightarrow> conversation" where
  "new_conversation t1 t2 a =
     \<lparr>messages = a, created_at = t1, last_modified = t2, title = ''New Chat''\<rparr>"

definition init_conversation_state :: "datetime \<Rightarrow> datetime \<Rightarrow> session_state \<Rightarrow> store" where
  "init_conversation_state t1 t2 ss =
     (let convs = (case ss_conversations ss of None \<Rightarrow> [] | Some d \<Rightarrow> d);
          act = (case ss_active_conversation ss of None \<Rightarrow> ''default'' | Some a \<Rightarrow> a)
      in if act \<notin> set (dict_keys convs)
         then \<lparr>conversations = dict_set act (new_conversation t1 t2 (ss_next_addr ss)) convs,
               active_conversation = act,
               heap = (ss_heap ss)(ss_next_addr ss := []),
               next_addr = Suc (ss_next_addr ss)\<rparr>
         else \<lparr>conversations = convs, active_conversation = act,
               heap = ss_heap ss, next_addr = ss_next_addr ss\<rparr>)"

text \<open>
  \<^verbatim>\<open>add_message(role, content, conversation_id=None)\<close>. The three clock readings are
  those of the timestamp, of the id and of \<^verbatim>\<open>last_modified\<close>; \<open>ident\<close> is the id
  derived from the second. The title expression parses as
  \<^verbatim>\<open>(content[:50] + "...") if len(content) > 50 else content\<close>.
\<close>

definition derive_title :: "string \<Rightarrow> string" where
  "derive_title c = (if length c > 50 then take 50 c @ ''...'' else c)"

definition add_message ::
  "string \<Rightarrow> string \<Rightarrow> string option \<Rightarrow> datetime \<Rightarrow> string \<Rightarrow> datetime \<Rightarrow> store \<Rightarrow> exn + store"
where
  "add_message r c conversation_id ts ident now s =
     (let cid = (case conversation_id of None \<Rightarrow> active_conversation s | Some i \<Rightarrow> i);
          m = \<lparr>role = r, content = c, timestamp = ts, msg_id = ident\<rparr>
      in case dict_get (conversations s) cid of
           None \<Rightarrow> Inl (KeyError cid)
         | Some conv \<Rightarrow>
             (let h = (heap s)(messages conv := heap s (messages conv) @ [m]);
                  conv1 = conv\<lparr>last_modified := now\<rparr>;
                  conv2 = (if length (h (messages conv)) = 1
                           then conv1\<lparr>title := derive_title c\<rparr> else conv1)
              in Inr (s\<lparr>conversations := dict_set cid conv2 (conversations s), heap := h\<rparr>)))"

text \<open>The messages of a conversation, read through its reference.\<close>

definition messages_of :: "store \<Rightarrow> string \<Rightarrow> message list option" where
  "messages_of s cid = map_option (\<lambda>conv. heap s (messages conv)) (dict_get (conversations s) cid)"

definition title_of :: "store \<Rightarrow> string \<Rightarrow> string option" where
  "title_of s cid = map_option title (dict_get (conversations s) cid)"

subsection \<open>Sidebar handlers: new, select, delete, clear all\<close>

definition create_conversation :: "string \<Rightarrow> datetime \<Rightarrow> datetime \<Rightarrow> store \<Rightarrow> store" where
  "create_conversation new_id t1 t2 s =
     s\<lparr>conversations := dict_set new_id (new_conversation t1 t2 (next_addr s)) (conversations s),
       active_conversation := new_id,
       heap := (heap s)(next_addr s := []),
       next_addr := Suc (next_addr s)\<rparr>"

definition select_conversation :: "string \<Rightarrow> store \<Rightarrow> store" where
  "select_conversation conv_id s = s\<lparr>active_conversation := conv_id\<rparr>"

text \<open>
  The delete button: nothing happens unless more than one conversation exists;
  \<^verbatim>\<open>list(conversations.keys())[0]\<close> is the first key in insertion order and raises
  \<^verbatim>\<open>IndexError\<close> on an empty dict.
\<close>

definition delete_conversation :: "string \<Rightarrow> store \<Rightarrow> exn + store" where
  "delete_conversation conv_id s =
     (if length (conversations s) > 1
      then (case dict_del conv_id (conversations s) of
              Inl e \<Rightarrow> Inl e
            | Inr d \<Rightarrow>
                if conv_id = active_conversation s
                then (case dict_keys d of
                        [] \<Rightarrow> Inl (IndexError ''list index out of range'')
                      | k # _ \<Rightarrow> Inr (s\<lparr>conversations := d, active_conversation := k\<rparr>))
                else Inr (s\<lparr>conversations := d\<rparr>))
      else Inr s)"

definition clear_all :: "datetime \<Rightarrow> datetime \<Rightarrow> store \<Rightarrow> store" where
  "clear_all t1 t2 s = init_conversation_state t1 t2 ((persist s)\<lparr>ss_conversations := Some []\<rparr>)"

text \<open>
  One run of the script per user action. The select and delete buttons are drawn inside
  the loop over the conversations of the store, so they exist only for ids that are
  present (\<open>offered\<close>); the go-to button of a search result sets the active id to
  the conversation the result was found in, and is a \<open>SelectConversation\<close> too. After
  the handler the script reruns and \<^verbatim>\<open>init_conversation_state\<close> is the first thing
  the new run does.
\<close>

datatype event =
    NewConversation string datetime datetime
  | SelectConversation string
  | DeleteConversation string
  | ClearAll datetime datetime

fun offered :: "event \<Rightarrow> store \<Rightarrow> bool" where
  "offered (NewConversation new_id t1 t2) s = True"
| "offered (SelectConversation conv_id) s = (conv_id \<in> set (dict_keys (conversations s)))"
| "offered (DeleteConversation conv_id) s = (conv_id \<in> set (dict_keys (conversations s)))"
| "offered (ClearAll t1 t2) s = True"

fun handle :: "event \<Rightarrow> store \<Rightarrow> exn + store" where
  "handle (NewConversation new_id t1 t2) s = Inr (create_conversation new_id t1 t2 s)"
| "handle (SelectConversation conv_id) s = Inr (select_conversation conv_id s)"
| "handle (DeleteConversation conv_id) s = delete_conversation conv_id s"
| "handle (ClearAll t1 t2) s = Inr (clear_all t1 t2 s)"

text \<open>
  A session: the first run initialises the state, then each event is handled and the
  script reruns. Each step carries the two clock readings its rerun would use. A raised
  exception ends the session with that exception.
\<close>

fun run_events :: "store \<Rightarrow> (event \<times> datetime \<times> datetime) list \<Rightarrow> exn + store" where
  "run_events s [] = Inr s"
| "run_events s ((e, t1, t2) # es) =
     (case handle e s of
        Inl x \<Rightarrow> Inl x
      | Inr s' \<Rightarrow> run_events (init_conversation_state t1 t2 (persist s')) es)"

fun all_offered :: "store \<Rightarrow> (event \<times> datetime \<times> datetime) list \<Rightarrow> bool" where
  "all_offered s [] = True"
| "all_offered s ((e, t1, t2) # es) =
     (offered e s \<and>
      (case handle e s of
         Inl x \<Rightarrow> True
       | Inr s' \<Rightarrow> all_offered (init_conversation_state t1 t2 (persist s')) es))"

definition store_ok :: "store \<Rightarrow> bool" where
  "store_ok s \<longleftrightarrow>
     conversations s \<noteq> [] \<and> active_conversation s \<in> set (dict_keys (conversations s))"

definition keys_distinct :: "store \<Rightarrow> bool" where
  "keys_distinct s \<longleftrightarrow> distinct (dict_keys (conversations s))"

subsection \<open>Regenerate\<close>

text \<open>
  The regenerate button of message \<open>i\<close>:
  \<^verbatim>\<open>current_conv['messages'] = messages[:i]\<close>. The slice is a new list object, and the
  active conversation is made to refer to it; for a natural number \<open>i\<close> the slice is
  \<open>take i\<close>, also beyond the end of the list.
\<close>

definition regenerate :: "nat \<Rightarrow> store \<Rightarrow> exn + store" where
  "regenerate i s =
     (case dict_get (conversations s) (active_conversation s) of
        None \<Rightarrow> Inl (KeyError (active_conversation s))
      | Some current_conv \<Rightarrow>
          Inr (s\<lparr>conversations :=
                   dict_set (active_conversation s) (current_conv\<lparr>messages := next_addr s\<rparr>)
                     (conversations s),
                 heap := (heap s)(next_addr s := take i (heap s (messages current_conv))),
                 next_addr := Suc (next_addr s)\<rparr>))"

subsection \<open>The chat input: the context sent to the model\<close>

text \<open>
  A \<^verbatim>\<open>{"role": ..., "content": ...}\<close> dict of the request is a pair. The system prompt
  is prepended when it is truthy, that is, not the empty string.
\<close>

type_synonym wire_message = "string \<times> string"

definition to_wire :: "message \<Rightarrow> wire_message" where
  "to_wire m = (role m, content m)"

definition system_prefix :: "string \<Rightarrow> wire_message list" where
  "system_prefix system_prompt = (if system_prompt \<noteq> [] then [(''system'', system_prompt)] else [])"

text \<open>Single-model mode, lines 585-586.\<close>

definition single_model_context :: "string \<Rightarrow> message list \<Rightarrow> wire_message list" where
  "single_model_context system_prompt msgs = system_prefix system_prompt @ map to_wire msgs"

text \<open>Compare mode, lines 554-556: the same, and then the prompt is appended.\<close>

definition compare_mode_context :: "string \<Rightarrow> message list \<Rightarrow> string \<Rightarrow> wire_message list" where
  "compare_mode_context system_prompt msgs prompt =
     system_prefix system_prompt @ map to_wire msgs @ [(''user'', prompt)]"

text \<open>
  The script from line 469 to the call of the client. The local variable
  \<^verbatim>\<open>messages\<close> is bound to the list object of the active conversation before
  \<^verbatim>\<open>add_message("user", prompt)\<close> runs, and is read afterwards, through the heap as
  \<^verbatim>\<open>add_message\<close> left it. \<open>compare\<close> is the truth of
  \<^verbatim>\<open>compare_mode and compare_models\<close>; every compared model gets the same context.
\<close>

definition chat_input_context ::
  "bool \<Rightarrow> string \<Rightarrow> string \<Rightarrow> datetime \<Rightarrow> string \<Rightarrow> datetime \<Rightarrow> store
     \<Rightarrow> exn + (store \<times> wire_message list)"
where
  "chat_input_context compare system_prompt prompt ts ident now s =
     (case dict_get (conversations s) (active_conversation s) of
        None \<Rightarrow> Inl (KeyError (active_conversation s))
      | Some current_conv \<Rightarrow>
          (let msgs_ref = messages current_conv
           in case add_message ''user'' prompt None ts ident now s of
                Inl e \<Rightarrow> Inl e
              | Inr s' \<Rightarrow>
                  Inr (s', if compare
                           then compare_mode_context system_prompt (heap s' msgs_ref) prompt
                           else single_model_context system_prompt (heap s' msgs_ref))))"

section \<open>The HTTP client of ollama_client.py\<close>

subsection \<open>Python floats\<close>

text \<open>
  A Python float is an IEEE 754 binary64 number: finite, and then given by the real
  number it stands for, or an infinity, or a NaN. The sign of a zero is not kept; no
  operation of the client can tell the two zeros apart, since dividing by either raises.

  \<open>round64\<close> rounds a real to the nearest binary64 value, ties to the even
  significand: with \<open>e\<close> the binary exponent of \<open>x\<close>, the result is a multiple of
  \<open>2 powi (e - 52)\<close>, in the subnormal range of \<open>2 powi (- 1074)\<close>, and a result of
  magnitude \<open>2 ^ 1024\<close> or more is an infinity.
\<close>

datatype pyfloat = Fin real | PInf | NInf | NaN

definition round_half_even :: "real \<Rightarrow> int" where
  "round_half_even x =
     (let f = \<lfloor>x\<rfloor>; d = x - of_int f
      in if d < 1 / 2 then f else if 1 / 2 < d then f + 1 else if even f then f else f + 1)"

definition round64 :: "real \<Rightarrow> pyfloat" where
  "round64 x =
     (if x = 0 then Fin 0
      else (let e = \<lfloor>log 2 \<bar>x\<bar>\<rfloor>;
                q = max e (- 1022) - 52;
                y = of_int (round_half_even (x / 2 powi q)) * 2 powi q
            in if 2 ^ 1024 \<le> \<bar>y\<bar> then (if 0 < x then PInf else NInf) else Fin y))"

fun float_is_zero :: "pyfloat \<Rightarrow> bool" where
  "float_is_zero (Fin x) = (x = 0)"
| "float_is_zero _ = False"

text \<open>The IEEE quotient; the callers have excluded a zero divisor.\<close>

fun float_div :: "pyfloat \<Rightarrow> pyfloat \<Rightarrow> pyfloat" where
  "float_div NaN _ = NaN"
| "float_div _ NaN = NaN"
| "float_div (Fin x) (Fin y) = round64 (x / y)"
| "float_div (Fin x) _ = Fin 0"
| "float_div PInf (Fin y) = (if y < 0 then NInf else PInf)"
| "float_div NInf (Fin y) = (if y < 0 then PInf else NInf)"
| "float_div _ _ = NaN"

fun float_sub :: "pyfloat \<Rightarrow> pyfloat \<Rightarrow> pyfloat" where
  "float_sub NaN _ = NaN"
| "float_sub _ NaN = NaN"
| "float_sub (Fin x) (Fin y) = round64 (x - y)"
| "float_sub (Fin x) PInf = NInf"
| "float_sub (Fin x) NInf = PInf"
| "float_sub PInf PInf = NaN"
| "float_sub NInf NInf = NaN"
| "float_sub PInf _ = PInf"
| "float_sub NInf _ = NInf"

subsection \<open>Parsed JSON and the Python operations used on it\<close>

text \<open>
  The value \<^verbatim>\<open>json.loads\<close> or \<^verbatim>\<open>response.json()\<close> returns: a JSON number without
  fraction or exponent is an \<^verbatim>\<open>int\<close>, any other a \<^verbatim>\<open>float\<close> (the parser also accepts
  \<^verbatim>\<open>Infinity\<close> and \<^verbatim>\<open>NaN\<close>); an object is the resulting dict. The same type serves for
  the numbers the client computes.
\<close>

datatype json =
    JNull
  | JBool bool
  | JInt int
  | JFloat pyfloat
  | JStr string
  | JArr "json list"
  | JObj "(string \<times> json) list"

text \<open>\<^verbatim>\<open>x.get(k, default)\<close>: only a dict has the method.\<close>

fun py_get :: "json \<Rightarrow> string \<Rightarrow> json \<Rightarrow> exn + json" where
  "py_get (JObj d) k dflt = Inr (case dict_get d k of None \<Rightarrow> dflt | Some v \<Rightarrow> v)"
| "py_get _ k dflt = Inl (AttributeError ''object has no attribute get'')"

text \<open>\<^verbatim>\<open>x[k]\<close> with a string key.\<close>

fun py_index :: "json \<Rightarrow> string \<Rightarrow> exn + json" where
  "py_index (JObj d) k = (case dict_get d k of None \<Rightarrow> Inl (KeyError k) | Some v \<Rightarrow> Inr v)"
| "py_index (JArr xs) k = Inl (TypeError ''list indices must be integers or slices, not str'')"
| "py_index (JStr s) k = Inl (TypeError ''string indices must be integers, not str'')"
| "py_index _ k = Inl (TypeError ''object is not subscriptable'')"

fun truthy :: "json \<Rightarrow> bool" where
  "truthy JNull = False"
| "truthy (JBool b) = b"
| "truthy (JInt n) = (n \<noteq> 0)"
| "truthy (JFloat x) = (\<not> float_is_zero x)"
| "truthy (JStr s) = (s \<noteq> [])"
| "truthy (JArr xs) = (xs \<noteq> [])"
| "truthy (JObj d) = (d \<noteq> [])"

text \<open>
  What a \<^verbatim>\<open>for\<close> loop or comprehension iterates over: the items of a list, the keys
  of a dict, the characters of a string.
\<close>

fun py_iter :: "json \<Rightarrow> exn + json list" where
  "py_iter (JArr xs) = Inr xs"
| "py_iter (JObj d) = Inr (map (\<lambda>p. JStr (fst p)) d)"
| "py_iter (JStr s) = Inr (map (\<lambda>c. JStr [c]) s)"
| "py_iter _ = Inl (TypeError ''object is not iterable'')"

definition bind_exn :: "exn + 'a \<Rightarrow> ('a \<Rightarrow> exn + 'b) \<Rightarrow> exn + 'b" where
  "bind_exn m f = (case m of Inl e \<Rightarrow> Inl e | Inr v \<Rightarrow> f v)"

text \<open>
  Arithmetic. \<^verbatim>\<open>bool\<close> is a subclass of \<^verbatim>\<open>int\<close>; a value that is not a number
  raises \<^verbatim>\<open>TypeError\<close>. An \<^verbatim>\<open>int\<close> operand of a float operation is converted first,
  correctly rounded, and the conversion raises \<^verbatim>\<open>OverflowError\<close> when the result is
  not finite.
\<close>

fun int_of :: "json \<Rightarrow> int option" where
  "int_of (JInt n) = Some n"
| "int_of (JBool b) = Some (if b then 1 else 0)"
| "int_of _ = None"

definition float_of_int :: "int \<Rightarrow> exn + pyfloat" where
  "float_of_int n =
     (case round64 (of_int n) of
        Fin y \<Rightarrow> Inr (Fin y)
      | _ \<Rightarrow> Inl (OverflowError ''int too large to convert to float''))"

fun to_float :: "json \<Rightarrow> exn + pyfloat" where
  "to_float (JFloat x) = Inr x"
| "to_float (JInt n) = float_of_int n"
| "to_float (JBool b) = Inr (Fin (if b then 1 else 0))"
| "to_float _ = Inl (TypeError ''unsupported operand type(s) for /'')"

text \<open>
  \<^verbatim>\<open>a / b\<close>. Of two ints it is the correctly rounded exact quotient; otherwise both
  operands are converted, a zero divisor raises, and the quotient is the IEEE one.
\<close>

definition py_truediv :: "json \<Rightarrow> json \<Rightarrow> exn + pyfloat" where
  "py_truediv a b =
     (case (int_of a, int_of b) of
        (Some m, Some n) \<Rightarrow>
          if n = 0 then Inl (ZeroDivisionError ''division by zero'')
          else (case round64 (of_int m / of_int n) of
                  Fin y \<Rightarrow> Inr (Fin y)
                | _ \<Rightarrow> Inl (OverflowError ''integer division result too large for a float''))
      | _ \<Rightarrow>
          bind_exn (to_float a) (\<lambda>x.
          bind_exn (to_float b) (\<lambda>y.
            if float_is_zero y then Inl (ZeroDivisionError ''float division by zero'')
            else Inr (float_div x y))))"

text \<open>\<^verbatim>\<open>x > 0\<close>\<close>

fun py_gt_zero :: "json \<Rightarrow> exn + bool" where
  "py_gt_zero (JInt n) = Inr (0 < n)"
| "py_gt_zero (JBool b) = Inr b"
| "py_gt_zero (JFloat (Fin x)) = Inr (0 < x)"
| "py_gt_zero (JFloat PInf) = Inr True"
| "py_gt_zero (JFloat _) = Inr False"
| "py_gt_zero _ = Inl (TypeError ''> not supported between these instances'')"

text \<open>The float literal \<^verbatim>\<open>1e9\<close>.\<close>

definition lit_1e9 :: json where
  "lit_1e9 = JFloat (Fin 1000000000)"

text \<open>
  \<^verbatim>\<open>try: body except requests.RequestException as e: handler\<close>: every other
  exception passes through.
\<close>

definition except_request :: "exn + 'a \<Rightarrow> (exn \<Rightarrow> 'a) \<Rightarrow> exn + 'a" where
  "except_request body handler =
     (case body of
        Inl e \<Rightarrow> if is_request_exception e then Inr (handler e) else Inl e
      | Inr v \<Rightarrow> Inr v)"

subsection \<open>What the network does\<close>

text \<open>
  The behaviour of the server and of the \<^verbatim>\<open>requests\<close> library is an input of each
  client function: a call of \<^verbatim>\<open>requests.get\<close> or \<^verbatim>\<open>requests.post\<close> either raises
  or returns a response. \<open>reason_text\<close> is the message of the \<^verbatim>\<open>HTTPError\<close> that
  \<^verbatim>\<open>raise_for_status\<close> raises for the response, \<open>json_result\<close> is what
  \<^verbatim>\<open>response.json()\<close> does, and \<open>iter_lines\<close> is the streamed body as
  \<^verbatim>\<open>response.iter_lines()\<close> delivers it: line after line, until the stream ends or
  breaks with an exception, or without end.
  A line is empty, or \<^verbatim>\<open>json.loads(line.decode('utf-8'))\<close> raises a
  \<^verbatim>\<open>ValueError\<close> (\<^verbatim>\<open>UnicodeDecodeError\<close>, \<^verbatim>\<open>JSONDecodeError\<close>) on it, or returns
  a value.
\<close>

datatype stream_line = EmptyLine | BadLine string | JsonLine json

codatatype line_stream =
    EndOfStream
  | StreamRaises exn
  | Line stream_line line_stream

record response =
  status_code :: nat
  reason_text :: string
  json_result :: "exn + json"
  iter_lines :: line_stream

datatype http = Raises exn | Returns response

definition raise_for_status :: "response \<Rightarrow> exn + unit" where
  "raise_for_status r =
     (if 400 \<le> status_code r \<and> status_code r < 600
      then Inl (RequestException (reason_text r)) else Inr ())"

definition error_text :: "exn \<Rightarrow> string" where
  "error_text e = ''Error: '' @ str_exn e"

subsection \<open>list_models\<close>

text \<open>The comprehension \<^verbatim>\<open>[model["name"] for model in models]\<close>.\<close>

fun names_of :: "json list \<Rightarrow> exn + json list" where
  "names_of [] = Inr []"
| "names_of (model # models) =
     bind_exn (py_index model ''name'') (\<lambda>n. bind_exn (names_of models) (\<lambda>ns. Inr (n # ns)))"

definition list_models :: "http \<Rightarrow> exn + json list" where
  "list_models net =
     except_request
       (case net of
          Raises e \<Rightarrow> Inl e
        | Returns r \<Rightarrow>
            bind_exn (raise_for_status r) (\<lambda>_.
            bind_exn (json_result r) (\<lambda>body.
            bind_exn (py_get body ''models'' (JArr [])) (\<lambda>models.
            bind_exn (py_iter models) names_of))))
       (\<lambda>e. [])"

subsection \<open>chat_stream\<close>

text \<open>
  A generator is observed through its consumer: the fragments it has yielded, in order,
  by the time it has read \<open>n\<close> items of the stream, and its state then. It is
  \<open>Exhausted\<close> when it has returned, \<open>Raised e\<close> when it has raised \<open>e\<close> into the
  consumer, and still \<open>Running\<close> otherwise. The loop over
  \<^verbatim>\<open>response.iter_lines()\<close>:
\<close>

datatype generator_state = Exhausted | Raised exn | Running

fun stream_loop :: "nat \<Rightarrow> line_stream \<Rightarrow> json list \<times> generator_state" where
  "stream_loop 0 s = ([], Running)"
| "stream_loop (Suc n) EndOfStream = ([], Exhausted)"
| "stream_loop (Suc n) (StreamRaises e) = ([], Raised e)"
| "stream_loop (Suc n) (Line EmptyLine s) = stream_loop n s"
| "stream_loop (Suc n) (Line (BadLine m) s) = ([], Raised (ValueError m))"
| "stream_loop (Suc n) (Line (JsonLine chunk) s) =
     (case bind_exn (py_get chunk ''message'' (JObj [])) (\<lambda>m. py_get m ''content'' JNull) of
        Inl e \<Rightarrow> ([], Raised e)
      | Inr c \<Rightarrow>
          if truthy c
          then (case bind_exn (py_index chunk ''message'') (\<lambda>m. py_index m ''content'') of
                  Inl e \<Rightarrow> ([], Raised e)
                | Inr y \<Rightarrow> (y # fst (stream_loop n s), snd (stream_loop n s)))
          else stream_loop n s)"

text \<open>
  \<^verbatim>\<open>chat_stream\<close>: the request, the status check and the loop are inside the
  \<^verbatim>\<open>try\<close>; a \<^verbatim>\<open>RequestException\<close> raised by any of them is replaced by one last
  fragment, after which the generator returns.
\<close>

definition chat_stream :: "nat \<Rightarrow> http \<Rightarrow> json list \<times> generator_state" where
  "chat_stream n net =
     (let body =
        (case net of
           Raises e \<Rightarrow> ([], Raised e)
         | Returns r \<Rightarrow>
             (case raise_for_status r of
                Inl e \<Rightarrow> ([], Raised e)
              | Inr _ \<Rightarrow> stream_loop n (iter_lines r)))
      in case snd body of
           Raised e \<Rightarrow>
             if is_request_exception e then (fst body @ [JStr (error_text e)], Exhausted)
             else body
         | _ \<Rightarrow> body)"

subsection \<open>chat and compare_models\<close>

definition chat_body :: "http \<Rightarrow> exn + json" where
  "chat_body net =
     (case net of
        Raises e \<Rightarrow> Inl e
      | Returns r \<Rightarrow>
          bind_exn (raise_for_status r) (\<lambda>_.
          bind_exn (json_result r) (\<lambda>body.
          bind_exn (py_index body ''message'') (\<lambda>m. py_index m ''content''))))"

definition chat :: "http \<Rightarrow> exn + json" where
  "chat net = except_request (chat_body net) (\<lambda>e. JStr (error_text e))"

text \<open>
  \<^verbatim>\<open>compare_models\<close> submits one \<^verbatim>\<open>chat\<close> call per requested model to a thread
  pool and then collects the futures in submission order. Each requested model comes with
  what the network does to its call; \<^verbatim>\<open>future.result()\<close> returns what that call
  returned or raises what it raised, and \<^verbatim>\<open>except Exception\<close> catches every
  exception of the model. \<^verbatim>\<open>ThreadPoolExecutor(max_workers=0)\<close> raises.
\<close>

fun collect_results :: "(string \<times> http) list \<Rightarrow> (string, json) dict \<Rightarrow> (string, json) dict" where
  "collect_results [] responses = responses"
| "collect_results ((model, net) # futures) responses =
     collect_results futures
       (dict_set model (case chat net of Inr r \<Rightarrow> r | Inl e \<Rightarrow> JStr (error_text e)) responses)"

definition compare_models :: "(string \<times> http) list \<Rightarrow> exn + (string, json) dict" where
  "compare_models calls =
     (if length calls \<le> 0 then Inl (ValueError ''max_workers must be greater than 0'')
      else Inr (collect_results calls []))"

subsection \<open>chat_with_metrics and benchmark_model\<close>

text \<open>
  The values of the metrics dict. \<^verbatim>\<open>tokens_per_second\<close> is a float, or the
  \<^verbatim>\<open>int\<close> \<^verbatim>\<open>0\<close> of the \<^verbatim>\<open>else\<close> branch; the two counts are the values of
  the response as they are.
\<close>

record metrics =
  response_time :: pyfloat
  model_name :: string
  prompt_eval_count :: json
  eval_count :: json
  total_duration :: pyfloat
  load_duration :: pyfloat
  prompt_eval_duration :: pyfloat
  eval_duration :: pyfloat
  tokens_per_second :: json

text \<open>The metrics dict: the nine entries above, or the single entry \<^verbatim>\<open>"error"\<close>.\<close>

datatype metrics_dict = Metrics metrics | ErrorMetrics string

text \<open>\<^verbatim>\<open>response_data.get(k, 0) / 1e9\<close>\<close>

definition seconds_of :: "json \<Rightarrow> string \<Rightarrow> exn + pyfloat" where
  "seconds_of response_data k =
     bind_exn (py_get response_data k (JInt 0)) (\<lambda>v. py_truediv v lit_1e9)"

text \<open>
  \<^verbatim>\<open>get("eval_count", 0) / (get("eval_duration", 1) / 1e9) if get("eval_duration", 0) > 0 else 0\<close>:
  the condition is evaluated first, and the quotient only when it holds; of the quotient,
  the left operand first, then the divisor.
\<close>

definition tokens_per_second_of :: "json \<Rightarrow> exn + json" where
  "tokens_per_second_of response_data =
     bind_exn (py_get response_data ''eval_duration'' (JInt 0)) (\<lambda>c.
     bind_exn (py_gt_zero c) (\<lambda>positive.
       if positive
       then bind_exn (py_get response_data ''eval_count'' (JInt 0)) (\<lambda>a.
            bind_exn (py_get response_data ''eval_duration'' (JInt 1)) (\<lambda>b.
            bind_exn (py_truediv b lit_1e9) (\<lambda>d.
            bind_exn (py_truediv a (JFloat d)) (\<lambda>q. Inr (JFloat q)))))
       else Inr (JInt 0)))"

text \<open>
  \<open>start_time\<close> and \<open>end_time\<close> are the two readings of \<^verbatim>\<open>time.time()\<close>.
\<close>

definition chat_with_metrics ::
  "pyfloat \<Rightarrow> pyfloat \<Rightarrow> string \<Rightarrow> http \<Rightarrow> exn + (json \<times> metrics_dict)"
where
  "chat_with_metrics start_time end_time model net =
     except_request
       (case net of
          Raises e \<Rightarrow> Inl e
        | Returns r \<Rightarrow>
            bind_exn (raise_for_status r) (\<lambda>_.
            bind_exn (json_result r) (\<lambda>response_data.
            bind_exn (bind_exn (py_index response_data ''message'') (\<lambda>m. py_index m ''content'')) (\<lambda>c.
            bind_exn (py_get response_data ''prompt_eval_count'' (JInt 0)) (\<lambda>pec.
            bind_exn (py_get response_data ''eval_count'' (JInt 0)) (\<lambda>ec.
            bind_exn (seconds_of response_data ''total_duration'') (\<lambda>td.
            bind_exn (seconds_of response_data ''load_duration'') (\<lambda>ld.
            bind_exn (seconds_of response_data ''prompt_eval_duration'') (\<lambda>ped.
            bind_exn (seconds_of response_data ''eval_duration'') (\<lambda>ed.
            bind_exn (tokens_per_second_of response_data) (\<lambda>tps.
              Inr (c, Metrics
                \<lparr>response_time = float_sub end_time start_time, model_name = model,
                 prompt_eval_count = pec, eval_count = ec, total_duration = td,
                 load_duration = ld, prompt_eval_duration = ped, eval_duration = ed,
                 tokens_per_second = tps\<rparr>))))))))))))
       (\<lambda>e. (JStr (error_text e), ErrorMetrics (str_exn e)))"

text \<open>
  \<^verbatim>\<open>benchmark_model\<close>: call \<open>i\<close> of the loop meets the clock readings and the
  network behaviour \<open>env i\<close>. The loop keeps the metrics of the calls whose dict has no
  \<^verbatim>\<open>"error"\<close> key.
\<close>

record averages =
  avg_model :: string
  iterations :: nat
  avg_response_time :: pyfloat
  avg_tokens_per_second :: pyfloat
  avg_total_duration :: pyfloat
  avg_eval_duration :: pyfloat

datatype benchmark_result = BenchmarkError string | Averages averages

fun benchmark_loop ::
  "string \<Rightarrow> (pyfloat \<times> pyfloat \<times> http) list \<Rightarrow> metrics list \<Rightarrow> exn + metrics list"
where
  "benchmark_loop model [] metrics_list = Inr metrics_list"
| "benchmark_loop model ((t0, t1, net) # calls) metrics_list =
     (case chat_with_metrics t0 t1 model net of
        Inl e \<Rightarrow> Inl e
      | Inr (_, ErrorMetrics _) \<Rightarrow> benchmark_loop model calls metrics_list
      | Inr (_, Metrics m) \<Rightarrow> benchmark_loop model calls (metrics_list @ [m]))"

text \<open>
  \<^verbatim>\<open>sum(m[key] for m in metrics_list) / len(metrics_list)\<close>. The built-in
  \<^verbatim>\<open>sum\<close> is a parameter, \<open>py_sum\<close>: what it returns for floats depends on the
  interpreter (successive additions, or a compensated summation).
\<close>

definition average_of ::
  "(json list \<Rightarrow> exn + json) \<Rightarrow> (metrics \<Rightarrow> json) \<Rightarrow> metrics list \<Rightarrow> exn + pyfloat"
where
  "average_of py_sum f metrics_list =
     bind_exn (py_sum (map f metrics_list)) (\<lambda>total.
       py_truediv total (JInt (int (length metrics_list))))"

definition benchmark_model ::
  "(json list \<Rightarrow> exn + json) \<Rightarrow> string \<Rightarrow> int \<Rightarrow> (nat \<Rightarrow> pyfloat \<times> pyfloat \<times> http)
     \<Rightarrow> exn + benchmark_result"
where
  "benchmark_model py_sum model n env =
     bind_exn (benchmark_loop model (map env [0..<nat n]) []) (\<lambda>metrics_list.
       if metrics_list = [] then Inr (BenchmarkError ''All benchmark attempts failed'')
       else bind_exn (average_of py_sum (\<lambda>m. JFloat (response_time m)) metrics_list) (\<lambda>rt.
            bind_exn (average_of py_sum tokens_per_second metrics_list) (\<lambda>tps.
            bind_exn (average_of py_sum (\<lambda>m. JFloat (total_duration m)) metrics_list) (\<lambda>td.
            bind_exn (average_of py_sum (\<lambda>m. JFloat (eval_duration m)) metrics_list) (\<lambda>ed.
              Inr (Averages
                \<lparr>avg_model = model, iterations = length metrics_list,
                 avg_response_time = rt, avg_tokens_per_second = tps,
                 avg_total_duration = td, avg_eval_duration = ed\<rparr>))))))"

subsection \<open>unload_model and keep_model_loaded\<close>

text \<open>
  Both post to \<^verbatim>\<open>/api/generate\<close> and return \<^verbatim>\<open>True\<close> when the call returns; the
  response is not looked at.
\<close>

definition unload_model :: "http \<Rightarrow> exn + bool" where
  "unload_model net = except_request (case net of Raises e \<Rightarrow> Inl e | Returns r \<Rightarrow> Inr True) (\<lambda>e. False)"

definition keep_model_loaded :: "http \<Rightarrow> exn + bool" where
  "keep_model_loaded net = except_request (case net of Raises e \<Rightarrow> Inl e | Returns r \<Rightarrow> Inr True) (\<lambda>e. False)"

section \<open>Reference notions used in the statements\<close>

text \<open>A store with one conversation of two messages.\<close>

definition example_store :: store where
  "example_store =
     \<lparr>conversations =
        [(''default'', \<lparr>messages = 0, created_at = 0, last_modified = 2, title = ''hello''\<rparr>)],
      active_conversation = ''default'',
      heap = (\<lambda>_. [])(0 :=
        [\<lparr>role = ''user'', content = ''hello'', timestamp = 1, msg_id = ''id1''\<rparr>,
         \<lparr>role = ''assistant'', content = ''hi'', timestamp = 2, msg_id = ''id2''\<rparr>]),
      next_addr = 1\<rparr>"

text \<open>What a call of \<^verbatim>\<open>chat\<close> contributes to a comparison.\<close>

definition entry_of :: "http \<Rightarrow> json" where
  "entry_of net = (case chat_body net of Inr text \<Rightarrow> text | Inl e \<Rightarrow> JStr (''Error: '' @ str_exn e))"

text \<open>Example responses: a reply with status 200 and a parsed body, and a streamed reply.\<close>

definition ok_response :: "json \<Rightarrow> response" where
  "ok_response body =
     \<lparr>status_code = 200, reason_text = [], json_result = Inr body, iter_lines = EndOfStream\<rparr>"

definition streamed_response :: "line_stream \<Rightarrow> response" where
  "streamed_response ls =
     \<lparr>status_code = 200, reason_text = [], json_result = Inl (ValueError ''Extra data''),
      iter_lines = ls\<rparr>"

definition content_chunk :: "string \<Rightarrow> stream_line" where
  "content_chunk text = JsonLine (JObj [(''message'', JObj [(''content'', JStr text)])])"

text \<open>A server that sends the same line for ever.\<close>

primcorec endless :: "stream_line \<Rightarrow> line_stream" where
  "endless l = Line l (endless l)"

text \<open>
  The metrics dict one benchmark call produces, and the metrics of the calls that
  succeeded, in call order.
\<close>

definition call_metrics :: "string \<Rightarrow> pyfloat \<times> pyfloat \<times> http \<Rightarrow> exn + metrics_dict" where
  "call_metrics model c =
     map_sum id snd (chat_with_metrics (fst c) (fst (snd c)) model (snd (snd c)))"

definition successful_metrics :: "string \<Rightarrow> (pyfloat \<times> pyfloat \<times> http) list \<Rightarrow> metrics list" where
  "successful_metrics model calls =
     concat (map (\<lambda>c. case call_metrics model c of Inr (Metrics m) \<Rightarrow> [m] | _ \<Rightarrow> []) calls)"

text \<open>
  Two benchmark calls: the first gets a complete reply, the second a reply with status
  200 whose body has no \<^verbatim>\<open>message\<close>.
\<close>

definition lost_success_env :: "nat \<Rightarrow> pyfloat \<times> pyfloat \<times> http" where
  "lost_success_env i =
     (if i = 0
      then (Fin 0, Fin 0, Returns (ok_response (JObj [(''message'', JObj [(''content'', JStr ''Hi'')])])))
      else (Fin 0, Fin 0, Returns (ok_response (JObj [(''done'', JBool True)]))))"


text \<open>A reply with its \<^verbatim>\<open>eval_count\<close> and \<^verbatim>\<open>eval_duration\<close>.\<close>

definition chat_reply :: "string \<Rightarrow> json \<Rightarrow> json \<Rightarrow> json" where
  "chat_reply text count nanos =
     JObj [(''message'', JObj [(''content'', JStr text)]),
           (''eval_count'', count),
           (''eval_duration'', nanos)]"

text \<open>
  The binary64 value that the JSON number \<^verbatim>\<open>1e-320\<close> is read as: a subnormal float,
  2024 units of the smallest one.
\<close>

definition tiny_duration :: real where
  "tiny_duration = 2024 * 2 powi (- 1074)"

text \<open>An integer too large for a float.\<close>

definition huge_duration :: int where
  "huge_duration = 10 ^ 400"
section \<open>Properties of the conversation store\<close>

subsection \<open>Dicts\<close>

lemma keys_dict_set: "set (dict_keys (dict_set k v d)) = insert k (set (dict_keys d))"
  by (induction d) (auto simp: dict_keys_def)

lemma dict_set_nonempty: "dict_set k v d \<noteq> []"
  by (cases d) auto

lemma distinct_dict_set:
  "distinct (dict_keys d) \<Longrightarrow> distinct (dict_keys (dict_set k v d))"
proof (induction d)
  case Nil
  then show ?case by (simp add: dict_keys_def)
next
  case (Cons p ps)
  have "set (dict_keys (dict_set k v ps)) = insert k (set (dict_keys ps))"
    by (rule keys_dict_set)
  with Cons show ?case by (auto simp: dict_keys_def)
qed

lemma length_filter_key:
  "distinct (dict_keys d) \<Longrightarrow> k \<in> set (dict_keys d) \<Longrightarrow>
     Suc (length (filter (\<lambda>p. fst p \<noteq> k) d)) = length d"
proof (induction d)
  case Nil
  then show ?case by (simp add: dict_keys_def)
next
  case (Cons p ps)
  show ?case
  proof (cases "fst p = k")
    case True
    with Cons.prems have "k \<notin> fst ` set ps" by (auto simp: dict_keys_def)
    then have "filter (\<lambda>p. fst p \<noteq> k) ps = ps" by (auto simp: filter_id_conv)
    with True show ?thesis by simp
  next
    case False
    with Cons show ?thesis by (auto simp: dict_keys_def)
  qed
qed

lemma keys_filter_key:
  "set (dict_keys (filter (\<lambda>p. fst p \<noteq> k) d)) = set (dict_keys d) - {k}"
  by (auto simp: dict_keys_def)

lemma distinct_filter_key:
  "distinct (dict_keys d) \<Longrightarrow> distinct (dict_keys (filter (\<lambda>p. fst p \<noteq> k) d))"
  by (simp add: dict_keys_def distinct_map_filter)

lemma key_in_nonempty: "k \<in> set (dict_keys d) \<Longrightarrow> d \<noteq> []"
  by (auto simp: dict_keys_def)

lemma init_conversation_state_distinct:
  "(case ss_conversations ss of None \<Rightarrow> True | Some d \<Rightarrow> distinct (dict_keys d)) \<Longrightarrow>
     distinct (dict_keys (conversations (init_conversation_state t1 t2 ss)))"
proof -
  let ?convs = "case ss_conversations ss of None \<Rightarrow> [] | Some d \<Rightarrow> d"
  assume "case ss_conversations ss of None \<Rightarrow> True | Some d \<Rightarrow> distinct (dict_keys d)"
  then have "distinct (dict_keys ?convs)"
    by (simp add: dict_keys_def split: option.splits)
  then show ?thesis
    by (simp add: init_conversation_state_def Let_def distinct_dict_set)
qed

lemma init_conversation_state_ok: "store_ok (init_conversation_state t1 t2 ss)"
proof -
  let ?convs = "case ss_conversations ss of None \<Rightarrow> [] | Some d \<Rightarrow> d"
  let ?act = "case ss_active_conversation ss of None \<Rightarrow> ''default'' | Some a \<Rightarrow> a"
  show ?thesis
  proof (cases "?act \<in> set (dict_keys ?convs)")
    case True
    then have "?convs \<noteq> []" by (rule key_in_nonempty)
    with True show ?thesis
      by (simp add: init_conversation_state_def store_ok_def Let_def)
  next
    case False
    then show ?thesis
      by (simp add: init_conversation_state_def store_ok_def Let_def keys_dict_set
          dict_set_nonempty)
  qed
qed

lemma init_conversation_state_id:
  "store_ok s \<Longrightarrow> init_conversation_state t1 t2 (persist s) = s"
  by (simp add: init_conversation_state_def store_ok_def persist_def)

lemma create_conversation_ok: "store_ok (create_conversation new_id t1 t2 s)"
  by (simp add: create_conversation_def store_ok_def keys_dict_set dict_set_nonempty)

lemma select_conversation_ok:
  "conv_id \<in> set (dict_keys (conversations s)) \<Longrightarrow> store_ok (select_conversation conv_id s)"
  by (auto simp: select_conversation_def store_ok_def dict_keys_def)

lemma clear_all_ok: "store_ok (clear_all t1 t2 s)"
  by (simp add: clear_all_def init_conversation_state_ok)

lemma delete_conversation_ok:
  assumes ok: "store_ok s" and d: "keys_distinct s"
    and k: "conv_id \<in> set (dict_keys (conversations s))"
  shows "\<exists>s'. delete_conversation conv_id s = Inr s' \<and> store_ok s' \<and> keys_distinct s' \<and>
      (length (conversations s) = 1 \<longrightarrow> s' = s) \<and>
      (length (conversations s) > 1 \<longrightarrow>
         conv_id \<notin> set (dict_keys (conversations s')) \<and>
         set (dict_keys (conversations s')) = set (dict_keys (conversations s)) - {conv_id})"
proof (cases "length (conversations s) > 1")
  case False
  with ok have "length (conversations s) = 1"
    by (cases "conversations s") (auto simp: store_ok_def)
  with ok d show ?thesis by (simp add: delete_conversation_def)
next
  case True
  let ?d = "filter (\<lambda>p. fst p \<noteq> conv_id) (conversations s)"
  have del: "dict_del conv_id (conversations s) = Inr ?d"
    using k by (simp add: dict_del_def)
  have len: "Suc (length ?d) = length (conversations s)"
    using d k by (simp add: length_filter_key keys_distinct_def)
  with True have ne: "?d \<noteq> []" by auto
  then obtain p ps where cons: "?d = p # ps" by (cases ?d) auto
  have keys: "set (dict_keys ?d) = set (dict_keys (conversations s)) - {conv_id}"
    by (rule keys_filter_key)
  have dist: "distinct (dict_keys ?d)"
    using d by (simp add: distinct_filter_key keys_distinct_def)
  show ?thesis
  proof (cases "conv_id = active_conversation s")
    case True
    have "delete_conversation conv_id s =
            Inr (s\<lparr>conversations := ?d, active_conversation := fst p\<rparr>)"
      using \<open>1 < length (conversations s)\<close> del True cons
      by (simp add: delete_conversation_def dict_keys_def)
    moreover have "fst p \<in> set (dict_keys ?d)" using cons by (simp add: dict_keys_def)
    ultimately show ?thesis
      using ne keys dist \<open>1 < length (conversations s)\<close>
      by (simp add: store_ok_def keys_distinct_def)
  next
    case False
    have "delete_conversation conv_id s = Inr (s\<lparr>conversations := ?d\<rparr>)"
      using \<open>1 < length (conversations s)\<close> del False
      by (simp add: delete_conversation_def)
    moreover have "active_conversation s \<in> set (dict_keys ?d)"
      using ok False keys by (simp add: store_ok_def)
    ultimately show ?thesis
      using ne keys dist \<open>1 < length (conversations s)\<close>
      by (simp add: store_ok_def keys_distinct_def)
  qed
qed

lemma handle_ok:
  assumes "store_ok s" and "keys_distinct s" and "offered e s"
  shows "\<exists>s'. handle e s = Inr s' \<and> store_ok s' \<and> keys_distinct s'"
proof (cases e)
  case (NewConversation new_id t1 t2)
  with assms show ?thesis
    by (simp add: create_conversation_ok)
       (simp add: create_conversation_def keys_distinct_def distinct_dict_set)
next
  case (SelectConversation conv_id)
  with assms show ?thesis
    by (simp add: select_conversation_ok) (simp add: select_conversation_def keys_distinct_def)
next
  case (DeleteConversation conv_id)
  with assms delete_conversation_ok[of s conv_id] show ?thesis by auto
next
  case (ClearAll t1 t2)
  have "keys_distinct (clear_all t1 t2 s)"
    unfolding keys_distinct_def clear_all_def
    by (rule init_conversation_state_distinct) (simp add: persist_def dict_keys_def)
  with ClearAll show ?thesis by (simp add: clear_all_ok)
qed

lemma run_events_ok:
  "store_ok s \<Longrightarrow> keys_distinct s \<Longrightarrow> all_offered s es \<Longrightarrow>
     \<exists>s'. run_events s es = Inr s' \<and> store_ok s' \<and> keys_distinct s'"
proof (induction es arbitrary: s)
  case Nil
  then show ?case by simp
next
  case (Cons x es)
  obtain e t1 t2 where x: "x = (e, t1, t2)" by (cases x) auto
  from Cons.prems x have off: "offered e s" by simp
  from handle_ok[OF Cons.prems(1,2) off] obtain s1
    where h: "handle e s = Inr s1" and ok1: "store_ok s1" and d1: "keys_distinct s1" by blast
  have same: "init_conversation_state t1 t2 (persist s1) = s1"
    using ok1 by (rule init_conversation_state_id)
  from Cons.prems(3) x h same have "all_offered s1 es" by simp
  from Cons.IH[OF ok1 d1 this] show ?case using x h same by simp
qed

lemma dict_get_dict_set:
  "dict_get (dict_set k v d) k' = (if k' = k then Some v else dict_get d k')"
  by (induction d) auto

lemma dict_get_Some_key: "dict_get d k = Some v \<Longrightarrow> k \<in> set (dict_keys d)"
  by (induction d) (auto simp: dict_keys_def split: if_splits)

text \<open>
  C1. The store is never empty and the active conversation is always one of its entries:
  after every sequence of new, select, delete and clear-all actions that the page offers,
  starting from a fresh session, no handler has raised and the store is non-empty with
  its active id among its keys. In every such state, deleting any listed conversation
  succeeds and leaves such a state again; deleting the only conversation changes nothing,
  and deleting the active one of several moves the active id to another, remaining entry.
\<close>

theorem store_never_empty_active_valid:
  assumes "all_offered (init_conversation_state t1 t2 fresh_session) es"
  shows "\<exists>s. run_events (init_conversation_state t1 t2 fresh_session) es = Inr s \<and>
           conversations s \<noteq> [] \<and>
           active_conversation s \<in> set (dict_keys (conversations s)) \<and>
           (\<forall>conv_id \<in> set (dict_keys (conversations s)).
              \<exists>s'. delete_conversation conv_id s = Inr s' \<and>
                conversations s' \<noteq> [] \<and>
                active_conversation s' \<in> set (dict_keys (conversations s')) \<and>
                (length (conversations s) = 1 \<longrightarrow> s' = s) \<and>
                (1 < length (conversations s) \<longrightarrow>
                   conv_id \<notin> set (dict_keys (conversations s')) \<and>
                   set (dict_keys (conversations s')) =
                     set (dict_keys (conversations s)) - {conv_id}))"
proof -
  let ?start = "init_conversation_state t1 t2 fresh_session"
  have ok0: "store_ok ?start" by (rule init_conversation_state_ok)
  have "distinct (dict_keys (conversations ?start))"
    by (rule init_conversation_state_distinct) (simp add: fresh_session_def)
  then have d0: "keys_distinct ?start" by (simp add: keys_distinct_def)
  from run_events_ok[OF ok0 d0 assms] obtain s
    where r: "run_events ?start es = Inr s" and ok: "store_ok s" and d: "keys_distinct s"
    by blast
  have "\<exists>s'. delete_conversation conv_id s = Inr s' \<and>
          conversations s' \<noteq> [] \<and>
          active_conversation s' \<in> set (dict_keys (conversations s')) \<and>
          (length (conversations s) = 1 \<longrightarrow> s' = s) \<and>
          (1 < length (conversations s) \<longrightarrow>
             conv_id \<notin> set (dict_keys (conversations s')) \<and>
             set (dict_keys (conversations s')) =
               set (dict_keys (conversations s)) - {conv_id})"
    if "conv_id \<in> set (dict_keys (conversations s))" for conv_id
    using delete_conversation_ok[OF ok d that] by (auto simp: store_ok_def)
  with r ok show ?thesis by (auto simp: store_ok_def)
qed

theorem store_never_empty_active_valid_witness:
  "all_offered (init_conversation_state 0 0 fresh_session)
     [(NewConversation ''chat_1'' 1 1, 2, 2), (DeleteConversation ''chat_1'', 3, 3),
      (DeleteConversation ''default'', 4, 4)] \<and>
   (\<exists>s. run_events (init_conversation_state 0 0 fresh_session)
          [(NewConversation ''chat_1'' 1 1, 2, 2), (DeleteConversation ''chat_1'', 3, 3),
           (DeleteConversation ''default'', 4, 4)] = Inr s \<and>
        conversations s \<noteq> [] \<and>
        active_conversation s \<in> set (dict_keys (conversations s)))"
proof -
  have h: "all_offered (init_conversation_state 0 0 fresh_session)
     [(NewConversation ''chat_1'' 1 1, 2, 2), (DeleteConversation ''chat_1'', 3, 3),
      (DeleteConversation ''default'', 4, 4)]"
    by (simp add: init_conversation_state_def fresh_session_def dict_keys_def
        new_conversation_def create_conversation_def delete_conversation_def dict_del_def
        persist_def Let_def)
  from store_never_empty_active_valid[OF h] show ?thesis using h by blast
qed

subsection \<open>Messages and titles\<close>

lemma add_message_result:
  assumes "dict_get (conversations s) cid = Some conv"
    and "cid = (case conversation_id of None \<Rightarrow> active_conversation s | Some i \<Rightarrow> i)"
  shows "add_message r c conversation_id ts ident now s =
     Inr (s\<lparr>conversations :=
              dict_set cid
                ((if heap s (messages conv) = []
                  then conv\<lparr>last_modified := now, title := derive_title c\<rparr>
                  else conv\<lparr>last_modified := now\<rparr>))
                (conversations s),
            heap := (heap s)(messages conv :=
              heap s (messages conv) @ [\<lparr>role = r, content = c, timestamp = ts, msg_id = ident\<rparr>])\<rparr>)"
  using assms by (simp add: add_message_def Let_def)

text \<open>
  C7. When \<^verbatim>\<open>add_message\<close> appends to a conversation that has no message yet, the
  title becomes the first 50 characters of the content followed by \<^verbatim>\<open>...\<close> if the
  content is longer than 50 characters, and the content itself otherwise; when the
  conversation already has a message, the title stays as it was.
\<close>

theorem title_from_first_message:
  assumes "dict_get (conversations s) cid = Some conv"
    and "cid = (case conversation_id of None \<Rightarrow> active_conversation s | Some i \<Rightarrow> i)"
  shows "\<exists>s'. add_message r c conversation_id ts ident now s = Inr s' \<and>
           (heap s (messages conv) = [] \<and> length c > 50 \<longrightarrow>
              title_of s' cid = Some (take 50 c @ ''...'')) \<and>
           (heap s (messages conv) = [] \<and> length c \<le> 50 \<longrightarrow> title_of s' cid = Some c) \<and>
           (heap s (messages conv) \<noteq> [] \<longrightarrow> title_of s' cid = Some (title conv))"
  by (simp add: add_message_result[OF assms] title_of_def dict_get_dict_set derive_title_def)

theorem title_from_first_message_witness:
  "dict_get (conversations (init_conversation_state 0 0 fresh_session)) ''default''
     = Some (new_conversation 0 0 0) \<and>
   (\<exists>s'. add_message ''user'' (replicate 80 CHR ''a'') None 1 ''0a1b2c3d'' 1
            (init_conversation_state 0 0 fresh_session) = Inr s' \<and>
      title_of s' ''default'' = Some (replicate 50 CHR ''a'' @ ''...''))"
proof -
  let ?s = "init_conversation_state 0 0 fresh_session"
  have h1: "dict_get (conversations ?s) ''default'' = Some (new_conversation 0 0 0)"
    by (simp add: init_conversation_state_def fresh_session_def dict_keys_def Let_def)
  have h2: "''default'' = (case None of None \<Rightarrow> active_conversation ?s | Some i \<Rightarrow> i)"
    by (simp add: init_conversation_state_def fresh_session_def dict_keys_def Let_def)
  have e: "heap ?s (messages (new_conversation 0 0 0)) = []"
    by (simp add: init_conversation_state_def fresh_session_def dict_keys_def Let_def
        new_conversation_def)
  from title_from_first_message[OF h1 h2, of "''user''" "replicate 80 CHR ''a''" 1 "''0a1b2c3d''" 1]
  show ?thesis using h1 e by auto
qed

subsection \<open>Truncation by regenerate\<close>

text \<open>
  C9. For a conversation of \<open>n\<close> messages and every \<open>k \<le> n\<close>, the regenerate handler
  at index \<open>k\<close> leaves exactly the first \<open>k\<close> messages, and appending one assistant
  message afterwards gives exactly those \<open>k\<close> messages followed by the new one:
  \<open>k + 1\<close> messages, none of the old tail.
\<close>

theorem truncate_then_append:
  assumes "dict_get (conversations s) (active_conversation s) = Some conv"
    and "heap s (messages conv) = msgs"
    and "k \<le> length msgs"
  shows "\<exists>s1 s2. regenerate k s = Inr s1 \<and>
           messages_of s1 (active_conversation s) = Some (take k msgs) \<and>
           length (take k msgs) = k \<and>
           active_conversation s1 = active_conversation s \<and>
           add_message ''assistant'' c None ts ident now s1 = Inr s2 \<and>
           messages_of s2 (active_conversation s) =
             Some (take k msgs @ [\<lparr>role = ''assistant'', content = c, timestamp = ts, msg_id = ident\<rparr>]) \<and>
           length (take k msgs @ [\<lparr>role = ''assistant'', content = c, timestamp = ts, msg_id = ident\<rparr>])
             = k + 1"
proof -
  let ?a = "active_conversation s"
  let ?s1 = "s\<lparr>conversations := dict_set ?a (conv\<lparr>messages := next_addr s\<rparr>) (conversations s),
               heap := (heap s)(next_addr s := take k msgs),
               next_addr := Suc (next_addr s)\<rparr>"
  have r: "regenerate k s = Inr ?s1"
    using assms(1,2) by (simp add: regenerate_def)
  have g: "dict_get (conversations ?s1) ?a = Some (conv\<lparr>messages := next_addr s\<rparr>)"
    by (simp add: dict_get_dict_set)
  have a: "?a = (case None of None \<Rightarrow> active_conversation ?s1 | Some i \<Rightarrow> i)"
    by simp
  have m1: "messages_of ?s1 ?a = Some (take k msgs)"
    by (simp add: messages_of_def dict_get_dict_set)
  from add_message_result[OF g a, of "''assistant''" c ts ident now]
  obtain s2 where s2: "add_message ''assistant'' c None ts ident now ?s1 = Inr s2"
    and m2: "messages_of s2 ?a =
      Some (take k msgs @ [\<lparr>role = ''assistant'', content = c, timestamp = ts, msg_id = ident\<rparr>])"
    by (simp add: messages_of_def dict_get_dict_set)
  from r m1 s2 m2 assms(3) show ?thesis by simp
qed

theorem truncate_then_append_witness:
  "dict_get (conversations example_store) (active_conversation example_store) =
     Some \<lparr>messages = 0, created_at = 0, last_modified = 2, title = ''hello''\<rparr> \<and>
   (1::nat) \<le> length (heap example_store 0) \<and>
   (\<exists>s1 s2. regenerate 1 example_store = Inr s1 \<and>
      messages_of s1 ''default'' =
        Some [\<lparr>role = ''user'', content = ''hello'', timestamp = 1, msg_id = ''id1''\<rparr>] \<and>
      add_message ''assistant'' ''again'' None 5 ''id3'' 5 s1 = Inr s2 \<and>
      messages_of s2 ''default'' =
        Some [\<lparr>role = ''user'', content = ''hello'', timestamp = 1, msg_id = ''id1''\<rparr>,
              \<lparr>role = ''assistant'', content = ''again'', timestamp = 5, msg_id = ''id3''\<rparr>])"
proof -
  let ?conv = "\<lparr>messages = 0, created_at = 0, last_modified = 2, title = ''hello''\<rparr>"
  let ?msgs = "[\<lparr>role = ''user'', content = ''hello'', timestamp = 1, msg_id = ''id1''\<rparr>,
                \<lparr>role = ''assistant'', content = ''hi'', timestamp = 2, msg_id = ''id2''\<rparr>]"
  have h1: "dict_get (conversations example_store) (active_conversation example_store) = Some ?conv"
    by (simp add: example_store_def)
  have h2: "heap example_store (messages ?conv) = ?msgs"
    by (simp add: example_store_def)
  have h3: "(1::nat) \<le> length ?msgs" by simp
  have a: "active_conversation example_store = ''default''"
    by (simp add: example_store_def)
  from truncate_then_append[OF h1 h2 h3, of "''again''" 5 "''id3''" 5] h1 h2
  show ?thesis by (auto simp: a)
qed

subsection \<open>The context of a turn\<close>

lemma chat_input_context_result:
  assumes "dict_get (conversations s) (active_conversation s) = Some conv"
  shows "\<exists>s'. chat_input_context compare system_prompt prompt ts ident now s =
           Inr (s', system_prefix system_prompt @
                    map to_wire (heap s (messages conv) @
                      [\<lparr>role = ''user'', content = prompt, timestamp = ts, msg_id = ident\<rparr>]) @
                    (if compare then [(''user'', prompt)] else [])) \<and>
           messages_of s' (active_conversation s) =
             Some (heap s (messages conv) @
                     [\<lparr>role = ''user'', content = prompt, timestamp = ts, msg_id = ident\<rparr>])"
proof -
  have a: "active_conversation s =
      (case None of None \<Rightarrow> active_conversation s | Some i \<Rightarrow> i)" by simp
  show ?thesis
    using assms
    by (auto simp: chat_input_context_def add_message_result[OF assms a] messages_of_def
        dict_get_dict_set single_model_context_def compare_mode_context_def Let_def)
qed

text \<open>
  In single-model mode the context is the system message, if the prompt for it is not
  empty, followed by the history up to and including the user message just appended, each
  message once.
\<close>

lemma single_model_context_is_history:
  assumes "dict_get (conversations s) (active_conversation s) = Some conv"
  shows "\<exists>s' hist. chat_input_context False system_prompt prompt ts ident now s =
           Inr (s', system_prefix system_prompt @ map to_wire hist) \<and>
           messages_of s' (active_conversation s) = Some hist \<and>
           hist = heap s (messages conv) @
                    [\<lparr>role = ''user'', content = prompt, timestamp = ts, msg_id = ident\<rparr>]"
  using chat_input_context_result[OF assms, of False system_prompt prompt ts ident now]
  by auto

text \<open>
  In compare mode the list object already holds the user message when the context is
  built, and the script appends the prompt again: the context is the one of single-model
  mode followed by a second copy of the user message.
\<close>

lemma compare_mode_context_is_history_and_prompt:
  assumes "dict_get (conversations s) (active_conversation s) = Some conv"
  shows "\<exists>s' hist. chat_input_context True system_prompt prompt ts ident now s =
           Inr (s', system_prefix system_prompt @ map to_wire hist @ [(''user'', prompt)]) \<and>
           messages_of s' (active_conversation s) = Some hist \<and>
           last (map to_wire hist) = (''user'', prompt)"
  using chat_input_context_result[OF assms, of True system_prompt prompt ts ident now]
  by (auto simp: to_wire_def)

text \<open>
  C6. The context of a turn is the optional system message followed by the history up to
  and including the user message just appended, each message once. The compare-mode path
  does not do this: in a fresh session, with an empty system prompt, the first prompt
  \<^verbatim>\<open>hi\<close> is sent to each compared model twice, while the stored history holds it once.
\<close>

theorem compare_mode_context_repeats_prompt:
  "map_sum id (\<lambda>r. (messages_of (fst r) ''default'', snd r))
     (chat_input_context True [] ''hi'' 1 ''0a1b2c3d'' 1 (init_conversation_state 0 0 fresh_session))
   = Inr (Some [\<lparr>role = ''user'', content = ''hi'', timestamp = 1, msg_id = ''0a1b2c3d''\<rparr>],
          [(''user'', ''hi''), (''user'', ''hi'')])"
  by (simp add: chat_input_context_def add_message_def init_conversation_state_def
      fresh_session_def dict_keys_def new_conversation_def Let_def messages_of_def
      compare_mode_context_def system_prefix_def to_wire_def)


section \<open>Properties of the HTTP client\<close>

subsection \<open>Rounding to binary64\<close>

text \<open>
  A number that fits 53 bits of significand above the smallest exponent is its own
  rounding; a number of magnitude below \<open>2 powi (- 1075)\<close> rounds to zero; a number of
  magnitude below \<open>2 ^ 1023\<close> rounds to a finite float, and one that is at least a
  normal power of two stays at least that; a number from \<open>2 ^ 1024\<close> on rounds to
  infinity.
\<close>

lemma round_half_even_of_int: "round_half_even (of_int m) = m"
  by (simp add: round_half_even_def)

lemma round_half_even_bounds: "x - 1 / 2 \<le> of_int (round_half_even x) \<and> of_int (round_half_even x) \<le> x + 1 / 2"
  unfolding round_half_even_def Let_def by (auto; linarith)

lemma round_half_even_small: "\<bar>x\<bar> < 1 / 2 \<Longrightarrow> round_half_even x = 0"
proof -
  assume a: "\<bar>x\<bar> < 1 / 2"
  from round_half_even_bounds[of x] a have "-1 < (of_int (round_half_even x) :: real)" "(of_int (round_half_even x) :: real) < 1"
    by linarith+
  then show ?thesis by linarith
qed

lemma exponent_less: 
  assumes "x \<noteq> 0" and "\<bar>x\<bar> < 2 powi k"
  shows "\<lfloor>log 2 \<bar>x\<bar>\<rfloor> < k"
proof -
  have "\<bar>x\<bar> < 2 powr (real_of_int k)" using assms(2) by (simp add: powr_real_of_int')
  then have "log 2 \<bar>x\<bar> < real_of_int k" using assms(1) by (simp add: less_powr_iff)
  then show ?thesis by (simp add: floor_less_iff)
qed

lemma exponent_ge:
  assumes "2 powi k \<le> \<bar>x\<bar>"
  shows "k \<le> \<lfloor>log 2 \<bar>x\<bar>\<rfloor>"
proof -
  have pos: "0 < \<bar>x\<bar>" using assms zero_less_power_int[of "2::real" k] by linarith
  have "2 powr (real_of_int k) \<le> \<bar>x\<bar>" using assms by (simp add: powr_real_of_int')
  then have "real_of_int k \<le> log 2 \<bar>x\<bar>" using pos by (simp add: powr_le_iff)
  then show ?thesis by (simp add: le_floor_iff)
qed

lemma exponent_bounds:
  assumes "x \<noteq> 0"
  shows "2 powi \<lfloor>log 2 \<bar>x\<bar>\<rfloor> \<le> \<bar>x\<bar>" and "\<bar>x\<bar> < 2 powi (\<lfloor>log 2 \<bar>x\<bar>\<rfloor> + 1)"
proof -
  define k where "k = \<lfloor>log 2 \<bar>x\<bar>\<rfloor>"
  have pos: "0 < \<bar>x\<bar>" using assms by simp
  have a: "2 powr real_of_int k = (2::real) powi k"
    by (rule powr_real_of_int') simp_all
  have b: "2 powr real_of_int (k + 1) = (2::real) powi (k + 1)"
    by (rule powr_real_of_int') simp_all
  have "2 powr real_of_int k \<le> \<bar>x\<bar> \<and> \<bar>x\<bar> < 2 powr real_of_int (k + 1)"
    using floor_log_eq_powr_iff[OF pos, of 2 k] by (simp add: k_def)
  then have "2 powi k \<le> \<bar>x\<bar>" and "\<bar>x\<bar> < 2 powi (k + 1)"
    unfolding a b by blast+
  then show "2 powi \<lfloor>log 2 \<bar>x\<bar>\<rfloor> \<le> \<bar>x\<bar>" and "\<bar>x\<bar> < 2 powi (\<lfloor>log 2 \<bar>x\<bar>\<rfloor> + 1)"
    by (simp_all add: k_def)
qed

lemma round64_exact:
  assumes m: "\<bar>m\<bar> < 2 ^ 53" and q: "- 1074 \<le> q"
    and b: "\<bar>of_int m * 2 powi q\<bar> < (2::real) ^ 1024"
  shows "round64 (of_int m * 2 powi q) = Fin (of_int m * 2 powi q)"
proof (cases "m = 0")
  case True
  then show ?thesis by (simp add: round64_def)
next
  case False
  define x :: real where "x = of_int m * 2 powi q"
  have x0: "x \<noteq> 0" using False by (simp add: x_def)
  define e where "e = \<lfloor>log 2 \<bar>x\<bar>\<rfloor>"
  define q' where "q' = max e (- 1022) - 52"
  have "\<bar>x\<bar> = of_int \<bar>m\<bar> * 2 powi q" by (simp add: x_def abs_mult)
  also have "\<dots> < 2 ^ 53 * 2 powi q"
  proof -
    have "(of_int \<bar>m\<bar> :: real) < 2 ^ 53" using m by (metis of_int_less_numeral_power_cancel_iff)
    then show ?thesis by (simp add: zero_less_power_int)
  qed
  also have "\<dots> = 2 powi (53 + q)" by (simp add: power_int_add)
  finally have "\<bar>x\<bar> < 2 powi (53 + q)" .
  from exponent_less[OF x0 this] have "e < 53 + q" by (simp add: e_def)
  with q have le: "q' \<le> q" by (simp add: q'_def)
  define n where "n = nat (q - q')"
  have qq: "q = q' + int n" using le by (simp add: n_def)
  have "(2::real) powi q = 2 powi q' * 2 ^ n"
    by (simp add: qq power_int_add)
  then have t: "x / 2 powi q' = of_int (m * 2 ^ n)"
    by (simp add: x_def)
  have y: "of_int (round_half_even (x / 2 powi q')) * 2 powi q' = x"
    unfolding t round_half_even_of_int using \<open>(2::real) powi q = 2 powi q' * 2 ^ n\<close> by (simp add: x_def)
  show ?thesis
    using x0 b y unfolding x_def[symmetric] 
    by (simp add: round64_def Let_def e_def[symmetric] q'_def[symmetric])
qed

lemma round64_underflow:
  assumes "\<bar>x\<bar> < 2 powi (- 1075)"
  shows "round64 x = Fin 0"
proof (cases "x = 0")
  case True
  then show ?thesis by (simp add: round64_def)
next
  case False
  define e where "e = \<lfloor>log 2 \<bar>x\<bar>\<rfloor>"
  from exponent_less[OF False assms] have "e < - 1075" by (simp add: e_def)
  then have q: "max e (- 1022) - 52 = - 1074" by simp
  have "\<bar>x / 2 powi (- 1074)\<bar> = \<bar>x\<bar> / 2 powi (- 1074)" by (simp add: abs_divide)
  also have "\<dots> < 2 powi (- 1075) / 2 powi (- 1074)"
    using assms by (simp add: divide_strict_right_mono zero_less_power_int)
  also have "\<dots> = 2 powi (- 1075 - (- 1074))" by (subst power_int_diff) simp_all
  also have "\<dots> = 1 / 2" by (simp add: power_int_minus)
  finally have "round_half_even (x / 2 powi (- 1074)) = 0" by (rule round_half_even_small)
  then show ?thesis
    using False by (simp add: round64_def Let_def e_def[symmetric] q)
qed




lemma round64_overflow:
  assumes "2 ^ 1024 \<le> x"
  shows "round64 x = PInf"
proof -
  have xpos: "0 < x" using assms zero_less_power[of "2::real" 1024] by linarith
  then have x0: "x \<noteq> 0" and ax: "\<bar>x\<bar> = x" by simp_all
  define e where "e = \<lfloor>log 2 \<bar>x\<bar>\<rfloor>"
  define q' where "q' = max e (- 1022) - 52"
  define m where "m = round_half_even (x / 2 powi q')"
  define y :: real where "y = of_int m * 2 powi q'"
  have p: "(0::real) < 2 powi q'" by (simp add: zero_less_power_int)
  have "2 powi 1024 \<le> \<bar>x\<bar>" using assms ax by simp
  from exponent_ge[OF this] have ke: "1024 \<le> e" by (simp add: e_def)
  then have q': "q' = e - 52" by (simp add: q'_def)
  have "(2::real) ^ 52 * 2 powi q' = 2 powi (52 + q')" by (simp add: power_int_add)
  also have "\<dots> = 2 powi e" by (simp add: q')
  finally have pe: "(2::real) ^ 52 * 2 powi q' = 2 powi e" .
  have "2 powi e \<le> x" using exponent_bounds(1)[OF x0] ax by (simp add: e_def)
  with pe have "2 ^ 52 * 2 powi q' \<le> x" by simp
  then have "2 ^ 52 \<le> x / 2 powi q'" using p by (simp add: pos_le_divide_eq)
  with round_half_even_bounds[of "x / 2 powi q'"] have "(2::real) ^ 52 - 1 < real_of_int m"
    unfolding m_def by linarith
  then have "(2::int) ^ 52 - 1 < m"
    by (metis (mono_tags, opaque_lifting) of_int_1 of_int_diff of_int_less_iff of_int_numeral of_int_power)
  then have "(2::int) ^ 52 \<le> m" by linarith
  then have "(2::real) ^ 52 \<le> real_of_int m"
    by (metis of_int_le_iff of_int_numeral of_int_power)
  then have "2 ^ 52 * 2 powi q' \<le> y" using p by (simp add: y_def mult_right_mono)
  moreover note pe
  moreover have "(2::real) powi 1024 \<le> 2 powi e"
    by (rule power_int_increasing) (use ke in simp_all)
  ultimately have "2 powi 1024 \<le> y" by linarith
  then have "2 ^ 1024 \<le> \<bar>y\<bar>" by simp
  then show ?thesis
    using x0 xpos by (simp only: round64_def Let_def e_def[symmetric] q'_def[symmetric]
        m_def[symmetric] y_def[symmetric] if_True if_False)
qed

subsection \<open>unload_model and keep_model_loaded\<close>

text \<open>
  C10. \<^verbatim>\<open>unload_model\<close> and \<^verbatim>\<open>keep_model_loaded\<close> return \<^verbatim>\<open>True\<close> whenever
  the request returns a response, whatever its status code, and return \<^verbatim>\<open>False\<close>
  exactly when the request raises a \<^verbatim>\<open>RequestException\<close>.
\<close>

theorem load_control_ignores_status:
  "unload_model (Returns r) = Inr True \<and>
   keep_model_loaded (Returns r) = Inr True \<and>
   (unload_model net = Inr False \<longleftrightarrow> (\<exists>m. net = Raises (RequestException m))) \<and>
   (keep_model_loaded net = Inr False \<longleftrightarrow> (\<exists>m. net = Raises (RequestException m)))"
proof -
  have a: "unload_model (Returns r) = Inr True" "keep_model_loaded (Returns r) = Inr True"
    by (simp_all add: unload_model_def keep_model_loaded_def except_request_def)
  have b: "(unload_model net = Inr False \<longleftrightarrow> (\<exists>m. net = Raises (RequestException m)))"
  proof (cases net)
    case (Raises e)
    then show ?thesis by (cases e) (simp_all add: unload_model_def except_request_def)
  next
    case (Returns r')
    then show ?thesis by (simp add: unload_model_def except_request_def)
  qed
  have c: "(keep_model_loaded net = Inr False \<longleftrightarrow> (\<exists>m. net = Raises (RequestException m)))"
  proof (cases net)
    case (Raises e)
    then show ?thesis by (cases e) (simp_all add: keep_model_loaded_def except_request_def)
  next
    case (Returns r')
    then show ?thesis by (simp add: keep_model_loaded_def except_request_def)
  qed
  from a b c show ?thesis by blast
qed

text \<open>A server error and a missing route still count as success; a refused connection does not.\<close>

theorem load_control_ignores_status_witness:
  "unload_model (Returns ((ok_response JNull)\<lparr>status_code := 500\<rparr>)) = Inr True \<and>
   keep_model_loaded (Returns ((ok_response JNull)\<lparr>status_code := 404\<rparr>)) = Inr True \<and>
   unload_model (Raises (RequestException ''Connection refused'')) = Inr False \<and>
   keep_model_loaded (Raises (RequestException ''Read timed out'')) = Inr False"
  using load_control_ignores_status[of "(ok_response JNull)\<lparr>status_code := 500\<rparr>"
          "Raises (RequestException ''Connection refused'')"]
        load_control_ignores_status[of "(ok_response JNull)\<lparr>status_code := 404\<rparr>"
          "Raises (RequestException ''Read timed out'')"]
  by blast

subsection \<open>list_models\<close>

lemma names_of_well_formed:
  "list_all2 (\<lambda>m n. \<exists>d. m = JObj d \<and> dict_get d ''name'' = Some n) ms ns \<Longrightarrow>
     names_of ms = Inr ns"
  by (induction ms ns rule: list_all2_induct) (auto simp: bind_exn_def)

text \<open>
  What \<^verbatim>\<open>list_models\<close> absorbs: a \<^verbatim>\<open>RequestException\<close> of the request, of the
  status check or of \<^verbatim>\<open>response.json()\<close> gives the empty list, and so does a body
  without \<^verbatim>\<open>models\<close>; a list of objects that each have a \<^verbatim>\<open>name\<close> gives the
  names in order.
\<close>

lemma list_models_absorbs_request_exceptions:
  "(is_request_exception e \<longrightarrow> list_models (Raises e) = Inr []) \<and>
   (400 \<le> status_code r \<and> status_code r < 600 \<longrightarrow> list_models (Returns r) = Inr []) \<and>
   (\<not> (400 \<le> status_code r \<and> status_code r < 600) \<and> json_result r = Inl e \<and>
      is_request_exception e \<longrightarrow> list_models (Returns r) = Inr []) \<and>
   (\<not> (400 \<le> status_code r \<and> status_code r < 600) \<and> json_result r = Inr (JObj d) \<and>
      dict_get d ''models'' = None \<longrightarrow> list_models (Returns r) = Inr []) \<and>
   (\<not> (400 \<le> status_code r \<and> status_code r < 600) \<and> json_result r = Inr (JObj d) \<and>
      dict_get d ''models'' = Some (JArr ms) \<and>
      list_all2 (\<lambda>m n. \<exists>d'. m = JObj d' \<and> dict_get d' ''name'' = Some n) ms ns
      \<longrightarrow> list_models (Returns r) = Inr ns)"
  by (auto simp: list_models_def except_request_def raise_for_status_def bind_exn_def
      names_of_well_formed)

text \<open>
  C4. \<^verbatim>\<open>list_models\<close> is to return the empty list, and never raise, on a malformed
  response. It does not on a body that parses and holds a model entry without
  \<^verbatim>\<open>name\<close>: the \<^verbatim>\<open>KeyError\<close> of the comprehension is not a
  \<^verbatim>\<open>RequestException\<close> and leaves the function.
\<close>

theorem list_models_raises_on_malformed_body:
  "list_models (Returns (ok_response (JObj [(''models'', JArr [JObj [(''size'', JInt 1)]])])))
     = Inl (KeyError ''name'')"
  by (simp add: list_models_def ok_response_def except_request_def raise_for_status_def
      bind_exn_def)

subsection \<open>chat_stream\<close>

lemma chat_stream_no_request_exception:
  "snd (chat_stream n net) = Raised e \<Longrightarrow> \<not> is_request_exception e"
  by (auto simp: chat_stream_def Let_def split: generator_state.splits if_splits)

text \<open>
  A stream that breaks with a \<^verbatim>\<open>RequestException\<close> ends the generator with one
  last fragment.
\<close>

lemma chat_stream_absorbs_broken_stream:
  "chat_stream (Suc (Suc (Suc n)))
     (Returns (streamed_response
        (Line (content_chunk ''Hel'') (Line EmptyLine
          (StreamRaises (RequestException ''Connection broken''))))))
   = ([JStr ''Hel'', JStr ''Error: Connection broken''], Exhausted)"
  by (simp add: chat_stream_def streamed_response_def content_chunk_def raise_for_status_def
      bind_exn_def error_text_def)

text \<open>
  The generator ends only if the stream does: on a stream that never ends it has
  yielded \<open>n\<close> fragments after \<open>n\<close> lines and is still running.
\<close>

lemma stream_loop_endless:
  "stream_loop n (endless (content_chunk ''tok'')) = (replicate n (JStr ''tok''), Running)"
proof (induction n)
  case 0
  then show ?case by simp
next
  case (Suc n)
  have "endless (content_chunk ''tok'') = Line (content_chunk ''tok'') (endless (content_chunk ''tok''))"
    by (rule endless.code)
  then have "stream_loop (Suc n) (endless (content_chunk ''tok'')) =
      stream_loop (Suc n) (Line (content_chunk ''tok'') (endless (content_chunk ''tok'')))"
    by simp
  also have "\<dots> = (JStr ''tok'' # fst (stream_loop n (endless (content_chunk ''tok''))),
                     snd (stream_loop n (endless (content_chunk ''tok''))))"
    by (simp add: content_chunk_def bind_exn_def)
  finally show ?case using Suc by simp
qed

lemma chat_stream_endless_keeps_running:
  "chat_stream n (Returns (streamed_response (endless (content_chunk ''tok''))))
     = (replicate n (JStr ''tok''), Running)"
  by (simp add: chat_stream_def streamed_response_def raise_for_status_def stream_loop_endless)

text \<open>
  C3. \<^verbatim>\<open>chat_stream\<close> is never to raise into its consumer, malformed chunks
  included. It does on a line that is not JSON: after the fragment of the first line,
  the \<^verbatim>\<open>ValueError\<close> of \<^verbatim>\<open>json.loads\<close> on the second is raised into every
  consumer that reads as far, since the \<^verbatim>\<open>except\<close> clause names
  \<^verbatim>\<open>RequestException\<close> only.
\<close>

theorem chat_stream_raises_on_malformed_chunk:
  "chat_stream (Suc (Suc n))
     (Returns (streamed_response
        (Line (content_chunk ''Hel'') (Line (BadLine ''Expecting value'') EndOfStream))))
   = ([JStr ''Hel''], Raised (ValueError ''Expecting value''))"
  by (simp add: chat_stream_def streamed_response_def content_chunk_def raise_for_status_def
      bind_exn_def)

subsection \<open>compare_models\<close>

lemma chat_entry: "(case chat net of Inr r \<Rightarrow> r | Inl e \<Rightarrow> JStr (error_text e)) = entry_of net"
  by (simp add: chat_def entry_of_def except_request_def error_text_def split: sum.splits)

lemma collect_results_keys:
  "set (dict_keys (collect_results calls acc)) = set (map fst calls) \<union> set (dict_keys acc)"
  by (induction calls acc rule: collect_results.induct) (auto simp: keys_dict_set)

lemma collect_results_distinct:
  "distinct (dict_keys acc) \<Longrightarrow> distinct (dict_keys (collect_results calls acc))"
  by (induction calls acc rule: collect_results.induct) (auto simp: distinct_dict_set)

lemma collect_results_get_other:
  "model \<notin> set (map fst calls) \<Longrightarrow>
     dict_get (collect_results calls acc) model = dict_get acc model"
  by (induction calls acc rule: collect_results.induct) (auto simp: dict_get_dict_set)

lemma collect_results_get:
  "model \<in> set (map fst calls) \<Longrightarrow>
     \<exists>net. (model, net) \<in> set calls \<and>
       dict_get (collect_results calls acc) model = Some (entry_of net)"
proof (induction calls acc rule: collect_results.induct)
  case (1 responses)
  then show ?case by simp
next
  case (2 m net futures responses)
  show ?case
  proof (cases "model \<in> set (map fst futures)")
    case True
    from "2.IH"[OF True] show ?thesis by auto
  next
    case False
    with "2.prems" have "m = model" by auto
    with False show ?thesis
      by (auto simp: collect_results_get_other dict_get_dict_set chat_entry)
  qed
qed

lemma collect_results_get_distinct:
  "distinct (map fst calls) \<Longrightarrow> (model, net) \<in> set calls \<Longrightarrow>
     dict_get (collect_results calls acc) model = Some (entry_of net)"
proof -
  assume d: "distinct (map fst calls)" and m: "(model, net) \<in> set calls"
  then have "model \<in> set (map fst calls)" by force
  from collect_results_get[OF this, of acc] obtain net'
    where n: "(model, net') \<in> set calls"
      and g: "dict_get (collect_results calls acc) model = Some (entry_of net')" by blast
  from d m n have "net' = net" by (meson eq_key_imp_eq_value)
  with g show ?thesis by simp
qed

text \<open>
  C5. For every non-empty list of requested models \<^verbatim>\<open>compare_models\<close> returns a
  mapping whose keys are exactly the requested models. The entry of a model is the
  response text of one of its own calls when that call succeeded and the string
  \<^verbatim>\<open>Error: ...\<close> built from that call's own exception when it failed; when the
  requested models are pairwise different, every call determines the entry of its model,
  whatever happens to the other calls.
\<close>

theorem compare_models_isolates_failures:
  assumes "calls \<noteq> []"
  shows "\<exists>responses. compare_models calls = Inr responses \<and>
           distinct (dict_keys responses) \<and>
           set (dict_keys responses) = set (map fst calls) \<and>
           (\<forall>model \<in> set (map fst calls).
              \<exists>net. (model, net) \<in> set calls \<and>
                dict_get responses model =
                  Some (case chat_body net of
                          Inr text \<Rightarrow> text
                        | Inl e \<Rightarrow> JStr (''Error: '' @ str_exn e))) \<and>
           (distinct (map fst calls) \<longrightarrow>
              (\<forall>(model, net) \<in> set calls.
                 dict_get responses model =
                   Some (case chat_body net of
                           Inr text \<Rightarrow> text
                         | Inl e \<Rightarrow> JStr (''Error: '' @ str_exn e))))"
proof -
  let ?r = "collect_results calls []"
  have c: "compare_models calls = Inr ?r"
    using assms by (simp add: compare_models_def)
  have d: "distinct (dict_keys ?r)"
    by (rule collect_results_distinct) (simp add: dict_keys_def)
  have k: "set (dict_keys ?r) = set (map fst calls)"
    using collect_results_keys[of calls "[]"] by (simp add: dict_keys_def)
  have g: "\<forall>model \<in> set (map fst calls).
              \<exists>net. (model, net) \<in> set calls \<and> dict_get ?r model = Some (entry_of net)"
    using collect_results_get by blast
  have g': "distinct (map fst calls) \<longrightarrow>
              (\<forall>(model, net) \<in> set calls. dict_get ?r model = Some (entry_of net))"
    using collect_results_get_distinct by blast
  from c d k g g' show ?thesis
    unfolding entry_of_def by blast
qed

theorem compare_models_isolates_failures_witness:
  "[(''a'', Returns (ok_response (JObj [(''message'', JObj [(''content'', JStr ''Hello'')])]))),
    (''b'', Raises (RequestException ''Connection refused''))] \<noteq> [] \<and>
   (\<exists>responses.
      compare_models
        [(''a'', Returns (ok_response (JObj [(''message'', JObj [(''content'', JStr ''Hello'')])]))),
         (''b'', Raises (RequestException ''Connection refused''))] = Inr responses \<and>
      dict_get responses ''a'' = Some (JStr ''Hello'') \<and>
      dict_get responses ''b'' = Some (JStr ''Error: Connection refused''))"
proof -
  let ?calls = "[(''a'', Returns (ok_response (JObj [(''message'', JObj [(''content'', JStr ''Hello'')])]))),
    (''b'', Raises (RequestException ''Connection refused''))]"
  have h: "?calls \<noteq> []" by simp
  from compare_models_isolates_failures[OF h] show ?thesis
    by (auto simp: chat_body_def ok_response_def raise_for_status_def bind_exn_def)
qed

subsection \<open>Floats of the metrics\<close>

lemma round64_zero: "round64 0 = Fin 0"
  by (simp add: round64_def)

lemma round64_of_int: "\<bar>n\<bar> < 2 ^ 53 \<Longrightarrow> round64 (of_int n) = Fin (of_int n)"
proof -
  assume a: "\<bar>n\<bar> < 2 ^ 53"
  then have "\<bar>real_of_int n\<bar> < 2 ^ 53"
    by (metis of_int_abs of_int_less_numeral_power_cancel_iff)
  then have "\<bar>real_of_int n * 2 powi 0\<bar> < 2 ^ 1024" by simp
  from round64_exact[OF a _ this] show ?thesis by simp
qed

lemma float_of_int_exact: "\<bar>n\<bar> < 2 ^ 53 \<Longrightarrow> float_of_int n = Inr (Fin (of_int n))"
  by (simp add: float_of_int_def round64_of_int)







lemma round64_values:
  "round64 (- 1) = Fin (- 1)" "round64 2 = Fin 2" "round64 20 = Fin 20" "round64 (- 5) = Fin (- 5)"
  using round64_of_int[of "- 1"] round64_of_int[of 2] round64_of_int[of 20] round64_of_int[of "- 5"]
  by simp_all


lemma float_of_int_values:
  "float_of_int 0 = Inr (Fin 0)" "float_of_int 5 = Inr (Fin 5)" "float_of_int 30 = Inr (Fin 30)"
  "float_of_int 1500000000 = Inr (Fin 1500000000)"
  "float_of_int (- 1000000000) = Inr (Fin (- 1000000000))"
  using float_of_int_exact[of 0] float_of_int_exact[of 5] float_of_int_exact[of 30]
    float_of_int_exact[of 1500000000] float_of_int_exact[of "- 1000000000"]
  by simp_all

lemma tiny_duration_positive: "0 < tiny_duration"
  by (simp add: tiny_duration_def zero_less_power_int)

lemma tiny_duration_underflows: "round64 (tiny_duration / 1000000000) = Fin 0"
proof (rule round64_underflow)
  have "\<bar>tiny_duration / 1000000000\<bar> = (2024 / 1000000000) * 2 powi (- 1074)"
    by (simp add: tiny_duration_def abs_mult zero_less_power_int)
  also have "\<dots> < (1 / 2) * 2 powi (- 1074)"
    by (rule mult_strict_right_mono) (simp_all add: zero_less_power_int)
  also have "\<dots> = 2 powi (- 1075)"
  proof -
    have "(2::real) powi (- 1074) = 2 powi (- 1075 + 1)" by simp
    also have "\<dots> = 2 powi (- 1075) * 2" by (subst power_int_add) simp_all
    finally show ?thesis by simp
  qed
  finally show "\<bar>tiny_duration / 1000000000\<bar> < 2 powi (- 1075)" .
qed

lemma tiny_duration_is_binary64: "round64 tiny_duration = Fin tiny_duration"
proof -
  have "(2::real) powi (- 1074) \<le> 2 powi 0" by (rule power_int_increasing) simp_all
  then have "\<bar>real_of_int 2024 * 2 powi (- 1074)\<bar> \<le> 2024 * 1"
    by (simp add: abs_mult zero_less_power_int)
  also have "\<dots> < (2::real) ^ 1024" by simp
  finally have b: "\<bar>real_of_int 2024 * 2 powi (- 1074)\<bar> < 2 ^ 1024" .
  from round64_exact[of 2024 "- 1074", OF _ _ b] show ?thesis by (simp add: tiny_duration_def)
qed

lemma round_half_even_near:
  assumes "real_of_int m - 1 / 2 < t" and "t < real_of_int m + 1 / 2"
  shows "round_half_even t = m"
proof -
  from round_half_even_bounds[of t] assms
  have "real_of_int m - 1 < real_of_int (round_half_even t)"
    and "real_of_int (round_half_even t) < real_of_int m + 1" by linarith+
  then show ?thesis by linarith
qed

lemma json_1e_minus_320: "round64 (1 / 10 ^ 320) = Fin tiny_duration"
proof -
  define x :: real where "x = 1 / 10 ^ 320"
  have x0: "x \<noteq> 0" and xp: "0 < x" by (simp_all add: x_def)
  have p: "(2::real) powi (- 1074) = 1 / 2 ^ 1074" by (simp add: power_int_minus field_simps)
  have p2: "(2::real) powi (- 1022) = 1 / 2 ^ 1022" by (simp add: power_int_minus field_simps)
  have "\<bar>x\<bar> < 2 powi (- 1022)" unfolding p2 x_def by (simp add: field_simps)
  from exponent_less[OF x0 this] have e: "max \<lfloor>log 2 \<bar>x\<bar>\<rfloor> (- 1022) - 52 = - 1074" by simp
  have t: "x / 2 powi (- 1074) = 2 ^ 1074 / 10 ^ 320" unfolding p x_def by simp
  have "round_half_even (2 ^ 1074 / 10 ^ 320) = 2024"
    by (rule round_half_even_near) (simp_all add: field_simps)
  then have y: "of_int (round_half_even (x / 2 powi (- 1074))) * 2 powi (- 1074) = tiny_duration"
    unfolding t by (simp add: tiny_duration_def)
  have "\<not> 2 ^ 1024 \<le> \<bar>tiny_duration\<bar>"
    using tiny_duration_is_binary64 by (auto simp: round64_def Let_def split: if_splits)
  then show ?thesis
    using x0 xp unfolding x_def[symmetric] by (simp only: round64_def Let_def e y if_False)
qed

lemma float_of_int_huge:
  "float_of_int huge_duration = Inl (OverflowError ''int too large to convert to float'')"
proof -
  have "(2::real) ^ 1024 \<le> 2 ^ 1200" by (rule power_increasing) simp_all
  also have "\<dots> = 8 ^ 400" using power_mult[of "2::real" 3 400] by simp
  also have "\<dots> \<le> 10 ^ 400" by (rule power_mono) simp_all
  finally have "2 ^ 1024 \<le> real_of_int huge_duration" by (simp add: huge_duration_def)
  from round64_overflow[OF this] show ?thesis by (simp add: float_of_int_def)
qed

subsection \<open>benchmark_model\<close>

text \<open>
  When every call returns, the loop keeps exactly the metrics of the calls that
  succeeded, in call order.
\<close>

lemma benchmark_loop_successes:
  "\<forall>c \<in> set calls. \<exists>d. call_metrics model c = Inr d \<Longrightarrow>
     benchmark_loop model calls acc = Inr (acc @ successful_metrics model calls)"
proof (induction calls arbitrary: acc)
  case Nil
  then show ?case by (simp add: successful_metrics_def)
next
  case (Cons c calls)
  obtain t0 t1 net where c: "c = (t0, t1, net)" by (cases c) auto
  from Cons.prems obtain d where d: "call_metrics model c = Inr d" by auto
  then obtain answer where r: "chat_with_metrics t0 t1 model net = Inr (answer, d)"
    using c by (cases "chat_with_metrics t0 t1 model net") (auto simp: call_metrics_def)
  from Cons.prems have rest: "\<forall>c \<in> set calls. \<exists>d. call_metrics model c = Inr d" by simp
  show ?case
  proof (cases d)
    case (Metrics m)
    with c d r Cons.IH[OF rest, of "acc @ [m]"] show ?thesis
      by (simp add: successful_metrics_def)
  next
    case (ErrorMetrics x)
    with c d r Cons.IH[OF rest, of acc] show ?thesis
      by (simp add: successful_metrics_def)
  qed
qed

lemma upt_two: "[0..<2] = [0, 1::nat]"
  by (simp add: upt_rec)

text \<open>
  C2. A benchmark run in which some calls fail and some succeed is to average over the
  calls that succeeded. It does not when a call fails on a reply with status 200 and no
  \<^verbatim>\<open>message\<close>: the \<^verbatim>\<open>KeyError\<close> is not a \<^verbatim>\<open>RequestException\<close>, leaves
  \<^verbatim>\<open>chat_with_metrics\<close> and ends \<^verbatim>\<open>benchmark_model\<close>, whatever \<^verbatim>\<open>sum\<close>
  computes; the metrics of the first call, which succeeded, are lost.
\<close>

theorem benchmark_aborts_on_reply_without_message:
  "call_metrics ''llama2'' (lost_success_env 0) =
     Inr (Metrics \<lparr>response_time = Fin 0, model_name = ''llama2'', prompt_eval_count = JInt 0,
       eval_count = JInt 0, total_duration = Fin 0, load_duration = Fin 0,
       prompt_eval_duration = Fin 0, eval_duration = Fin 0, tokens_per_second = JInt 0\<rparr>) \<and>
   call_metrics ''llama2'' (lost_success_env 1) = Inl (KeyError ''message'') \<and>
   benchmark_model py_sum ''llama2'' 2 lost_success_env = Inl (KeyError ''message'')"
  by (simp add: call_metrics_def lost_success_env_def benchmark_model_def upt_two
      chat_with_metrics_def ok_response_def except_request_def
      raise_for_status_def bind_exn_def seconds_of_def tokens_per_second_of_def
      py_truediv_def lit_1e9_def float_of_int_values round64_zero)

subsection \<open>chat_with_metrics\<close>


text \<open>
  The guard tests the nanoseconds and the divisor is the seconds: a positive float
  duration so small that its seconds round to zero passes the guard, and the division
  raises.
\<close>

lemma chat_with_metrics_underflow_raises:
  "chat_with_metrics (Fin 1) (Fin 3) ''llama2''
     (Returns (ok_response (chat_reply ''Hi'' (JInt 30) (JFloat (Fin tiny_duration)))))
   = Inl (ZeroDivisionError ''float division by zero'')"
  using tiny_duration_positive
  by (simp add: chat_with_metrics_def ok_response_def chat_reply_def except_request_def
      raise_for_status_def bind_exn_def seconds_of_def tokens_per_second_of_def
      py_truediv_def lit_1e9_def float_of_int_values round64_values round64_zero
      tiny_duration_underflows)

text \<open>An integer duration beyond the range of a float makes the conversion raise.\<close>

lemma chat_with_metrics_overflow_raises:
  "chat_with_metrics (Fin 1) (Fin 3) ''llama2''
     (Returns (ok_response (chat_reply ''Hi'' (JInt 30) (JInt huge_duration))))
   = Inl (OverflowError ''int too large to convert to float'')"
  by (simp add: chat_with_metrics_def ok_response_def chat_reply_def except_request_def
      raise_for_status_def bind_exn_def seconds_of_def
      py_truediv_def lit_1e9_def float_of_int_values round64_zero float_of_int_huge)



end
